theory Spec2Isabelle
  imports Main
begin

section \<open>The namespace deletion guard: an embedding of listener.go\<close>

text \<open>
  The admission webhook of k8s-namespace-guard answers one AdmissionReview per HTTP
  request. This theory embeds \<open>webhookHandler\<close>, \<open>validateNamespaceDeletion\<close>,
  \<open>writeResponse\<close> and the eight counters of \<open>listener.go\<close>.

  What is modelled and how:
  \<^item> Go strings are \<open>string\<close>; Go's \<open>int\<close> is \<open>int\<close> (the only integers are lengths
    of item lists, far from any overflow).
  \<^item> A Go \<open>error\<close> is a record of its message (\<open>err.Error()\<close>) and of what
    \<open>apiErrors.IsNotFound\<close> answers on it. A Go result pair \<open>(T, error)\<close> is the sum
    \<open>go_error + T\<close>, \<open>Inl\<close> the error.
  \<^item> The package-level variables \<open>admitAll\<close> and \<open>clientset\<close> are the record
    \<open>globals\<close>; the handler receives it and hands it back. \<open>namespaceResourceType\<close>,
    assigned once at its declaration, is a constant. The field \<open>Resource\<close> of a
    \<open>GroupVersionResource\<close> is \<open>GVR_Resource\<close> here, \<open>Resource\<close> being the field of
    the request.
  \<^item> Every call to the cluster through \<open>clientset\<close> is recorded, in order, in a list of
    \<open>api_call\<close>s next to the value it returned. The handler asks each question at most
    once per request, so a function from the arguments to the answer describes the
    cluster as one request sees it.
  \<^item> The JSON decoder and encoder and the \<open>fmt\<close> verbs belong to Go's libraries: the
    request carries the outcome of decoding its body, the response is the review handed
    to the encoder, and \<open>%v\<close>, \<open>%s\<close>, \<open>%d\<close> are written out below as \<open>fmt\<close> documents
    them. \<open>glog\<close> output is left out, apart from the nil dereference that evaluating
    the arguments of the log line at line 186 causes when the review has no request.
\<close>

subsection \<open>Types of the Kubernetes API\<close>

record GroupVersionResource =
  Group :: string
  Version :: string
  GVR_Resource :: string

record AdmissionRequest =
  Operation :: string
  Resource :: GroupVersionResource
  Name :: string

record Status =
  Reason :: string

record AdmissionResponse =
  Allowed :: bool
  Result :: Status

record AdmissionReview =
  Request :: "AdmissionRequest option"
  Response :: "AdmissionResponse option"

record Namespace =
  Annotations :: "(string \<rightharpoonup> string) option"

record go_error =
  Error :: string
  IsNotFound :: bool

type_synonym obj = string

record clientset =
  Namespaces_Get :: "string \<Rightarrow> go_error + Namespace"
  Pods_List :: "string \<Rightarrow> go_error + obj list"
  Services_List :: "string \<Rightarrow> go_error + obj list"
  ReplicaSets_List :: "string \<Rightarrow> go_error + obj list"
  Deployments_List :: "string \<Rightarrow> go_error + obj list"
  StatefulSets_List :: "string \<Rightarrow> go_error + obj list"
  DaemonSets_List :: "string \<Rightarrow> go_error + obj list"
  Ingresses_List :: "string \<Rightarrow> go_error + obj list"
  HorizontalPodAutoscalers_List :: "string \<Rightarrow> go_error + obj list"

record globals =
  admitAll :: bool
  clientset :: clientset

datatype api_call =
    Call_Namespaces_Get string
  | Call_Pods_List string
  | Call_Services_List string
  | Call_ReplicaSets_List string
  | Call_Deployments_List string
  | Call_StatefulSets_List string
  | Call_DaemonSets_List string
  | Call_Ingresses_List string
  | Call_HorizontalPodAutoscalers_List string

subsection \<open>Constants\<close>

definition bypassAnnotationKey :: string where
  "bypassAnnotationKey = ''k8s-namespace-guard.admission.yahoo.com/allow-cascade-delete''"

definition namespaceResourceType :: GroupVersionResource where
  "namespaceResourceType = \<lparr>Group = [], Version = ''v1'', GVR_Resource = ''namespaces''\<rparr>"

text \<open>\<open>admissionv1.Delete\<close> and \<open>http.MethodPost\<close>.\<close>

definition Delete :: string where
  "Delete = ''DELETE''"

definition MethodPost :: string where
  "MethodPost = ''POST''"

subsection \<open>The verbs of \<open>fmt\<close>\<close>

text \<open>\<open>%d\<close> on an \<open>int\<close>: decimal digits, a minus sign before a negative number.\<close>

function fmt_nat :: "nat \<Rightarrow> string" where
  "fmt_nat n =
     (if n < 10 then [''0123456789'' ! n]
      else fmt_nat (n div 10) @ [''0123456789'' ! (n mod 10)])"
  by pat_completeness auto
termination
  by (relation "measure id") auto

declare fmt_nat.simps [simp del]

definition fmt_d :: "int \<Rightarrow> string" where
  "fmt_d i = (if i < 0 then ''-'' @ fmt_nat (nat (- i)) else fmt_nat (nat i))"

text \<open>\<open>%v\<close> on a slice: the elements between brackets, one space between two.\<close>

fun sep_space :: "string list \<Rightarrow> string" where
  "sep_space [] = []"
| "sep_space [x] = x"
| "sep_space (x # y # ys) = x @ '' '' @ sep_space (y # ys)"

definition fmt_v_strings :: "string list \<Rightarrow> string" where
  "fmt_v_strings xs = ''['' @ sep_space xs @ '']''"

definition fmt_v_errors :: "go_error list \<Rightarrow> string" where
  "fmt_v_errors es = ''['' @ sep_space (map Error es) @ '']''"

text \<open>
  \<open>%v\<close> on a \<open>GroupVersionResource\<close> passed by value: the type's \<open>String\<close> method has a
  pointer receiver, so \<open>fmt\<close> prints the struct's fields between braces.
\<close>

definition fmt_v_GroupVersionResource :: "GroupVersionResource \<Rightarrow> string" where
  "fmt_v_GroupVersionResource r =
     ''{'' @ Group r @ '' '' @ Version r @ '' '' @ GVR_Resource r @ ''}''"

subsection \<open>The counters\<close>

text \<open>
  Each counter lists one kind in the namespace and returns the number of items, or the
  error of the list call. The second component is the call it made.
\<close>

type_synonym counted = "(go_error + int) \<times> api_call list"

definition len_Items :: "go_error + obj list \<Rightarrow> go_error + int" where
  "len_Items r = (case r of Inl err \<Rightarrow> Inl err | Inr items \<Rightarrow> Inr (int (length items)))"

definition podCounter :: "globals \<Rightarrow> string \<Rightarrow> counted" where
  "podCounter g namespace =
     (len_Items (Pods_List (clientset g) namespace), [Call_Pods_List namespace])"

definition serviceCounter :: "globals \<Rightarrow> string \<Rightarrow> counted" where
  "serviceCounter g namespace =
     (len_Items (Services_List (clientset g) namespace), [Call_Services_List namespace])"

definition replicasetCounter :: "globals \<Rightarrow> string \<Rightarrow> counted" where
  "replicasetCounter g namespace =
     (len_Items (ReplicaSets_List (clientset g) namespace), [Call_ReplicaSets_List namespace])"

definition deploymentCounter :: "globals \<Rightarrow> string \<Rightarrow> counted" where
  "deploymentCounter g namespace =
     (len_Items (Deployments_List (clientset g) namespace), [Call_Deployments_List namespace])"

definition statefulsetCounter :: "globals \<Rightarrow> string \<Rightarrow> counted" where
  "statefulsetCounter g namespace =
     (len_Items (StatefulSets_List (clientset g) namespace), [Call_StatefulSets_List namespace])"

definition daemonsetCounter :: "globals \<Rightarrow> string \<Rightarrow> counted" where
  "daemonsetCounter g namespace =
     (len_Items (DaemonSets_List (clientset g) namespace), [Call_DaemonSets_List namespace])"

definition ingressCounter :: "globals \<Rightarrow> string \<Rightarrow> counted" where
  "ingressCounter g namespace =
     (len_Items (Ingresses_List (clientset g) namespace), [Call_Ingresses_List namespace])"

definition autoScaleCounter :: "globals \<Rightarrow> string \<Rightarrow> counted" where
  "autoScaleCounter g namespace =
     (len_Items (HorizontalPodAutoscalers_List (clientset g) namespace),
      [Call_HorizontalPodAutoscalers_List namespace])"

subsection \<open>\<open>validateNamespaceDeletion\<close>\<close>

type_synonym counter_entry = "string \<times> (globals \<Rightarrow> string \<Rightarrow> counted)"

definition counters :: "counter_entry list" where
  "counters =
     [(''pods'', podCounter),
      (''services'', serviceCounter),
      (''replicasets'', replicasetCounter),
      (''deployments'', deploymentCounter),
      (''statefulsets'', statefulsetCounter),
      (''daemonsets'', daemonsetCounter),
      (''ingresses'', ingressCounter),
      (''horizontalpodautoscalers'', autoScaleCounter)]"

text \<open>\<open>fmt.Errorf("error listing %s, %v", c.kind, err)\<close>: a new error, not a status error.\<close>

definition listing_error :: "string \<Rightarrow> go_error \<Rightarrow> go_error" where
  "listing_error kind err =
     \<lparr>Error = ''error listing '' @ kind @ '', '' @ Error err, IsNotFound = False\<rparr>"

text \<open>\<open>fmt.Sprintf("%s(%d)", c.kind, num)\<close>.\<close>

definition kind_count :: "string \<Rightarrow> int \<Rightarrow> string" where
  "kind_count kind num = kind @ ''('' @ fmt_d num @ '')''"

text \<open>
  The \<open>for _, c := range counters\<close> loop of lines 138 to 147, over the entries still to
  visit, with \<open>errList\<close>, \<open>nonEmptyList\<close> and the calls made so far.
\<close>

fun count_loop ::
  "globals \<Rightarrow> string \<Rightarrow> counter_entry list \<Rightarrow>
   go_error list \<times> string list \<times> api_call list \<Rightarrow>
   go_error list \<times> string list \<times> api_call list" where
  "count_loop g namespace [] acc = acc"
| "count_loop g namespace ((kind, counter) # cs) (errList, nonEmptyList, calls) =
     (case counter g namespace of
        (Inl err, made) \<Rightarrow>
          count_loop g namespace cs (errList @ [listing_error kind err], nonEmptyList, calls @ made)
      | (Inr num, made) \<Rightarrow>
          if num > 0
          then count_loop g namespace cs (errList, nonEmptyList @ [kind_count kind num], calls @ made)
          else count_loop g namespace cs (errList, nonEmptyList, calls @ made))"

definition nonEmpty_sentence :: "string \<Rightarrow> string list \<Rightarrow> string" where
  "nonEmpty_sentence namespace nonEmptyList =
     ''The namespace '' @ namespace @
     '' you are trying to remove contains one or more of these resources: '' @
     fmt_v_strings nonEmptyList @ ''. Please delete them and try again.''"

definition errors_sentence :: "string \<Rightarrow> go_error list \<Rightarrow> string" where
  "errors_sentence namespace errList =
     ''The following error(s) occurred while validating the DELETE operation on the namespace '' @
     namespace @ '': '' @ fmt_v_errors errList @ ''.''"

definition bypass_warning :: "string \<Rightarrow> string" where
  "bypass_warning namespace =
     '' WARNING: If you know what you are doing, run `kubectl annotate namespace '' @
     namespace @ '' '' @ bypassAnnotationKey @ ''=true` to bypass this policy check.''"

text \<open>Lines 149 to 160: the error string built from the two lists, \<open>None\<close> for \<open>nil\<close>.\<close>

definition deletion_error :: "string \<Rightarrow> go_error list \<Rightarrow> string list \<Rightarrow> go_error option" where
  "deletion_error namespace errList nonEmptyList =
     (let errStr = [];
          errStr = (if length nonEmptyList > 0
                    then errStr @ nonEmpty_sentence namespace nonEmptyList else errStr);
          errStr = (if length errList > 0
                    then errStr @ errors_sentence namespace errList else errStr)
      in if errStr \<noteq> []
         then Some \<lparr>Error = errStr @ bypass_warning namespace, IsNotFound = False\<rparr>
         else None)"

definition validateNamespaceDeletion :: "globals \<Rightarrow> string \<Rightarrow> go_error option \<times> api_call list" where
  "validateNamespaceDeletion g namespace =
     (case count_loop g namespace counters ([], [], []) of
        (errList, nonEmptyList, calls) \<Rightarrow>
          (deletion_error namespace errList nonEmptyList, calls))"

subsection \<open>\<open>writeResponse\<close> and \<open>webhookHandler\<close>\<close>

text \<open>
  The request as the handler reads it: method, URL path, and what decoding the body into
  an \<open>AdmissionReview\<close> gives.
\<close>

record http_request =
  Method :: string
  Path :: string
  Body :: "go_error + AdmissionReview"

text \<open>
  What the handler leaves on the response writer: an \<open>http.Error\<close> with its status code,
  the review handed to the JSON encoder, or nothing when the handler panics on a nil
  \<open>Request\<close> (\<open>Request\<close> is a pointer; lines 29 to 32 and line 186 read through it).
  The reviews encoded here were decoded from JSON or are the empty one, so the encoder's
  own error branch (lines 47 to 50) is not part of the model.
\<close>

datatype written =
    HttpError nat string
  | Review AdmissionReview
  | Panic

record handled =
  written :: written
  calls :: "api_call list"
  globals_after :: globals

definition writeResponse :: "AdmissionReview \<Rightarrow> bool \<Rightarrow> string \<Rightarrow> written" where
  "writeResponse admReview allowed errorMsg =
     (case Request admReview of
        None \<Rightarrow> Panic
      | Some _ \<Rightarrow>
          Review (admReview\<lparr>Response :=
            Some \<lparr>Allowed = allowed, Result = \<lparr>Reason = errorMsg\<rparr>\<rparr>\<rparr>))"

text \<open>The zero value \<open>new(admissionv1.AdmissionRequest)\<close>.\<close>

definition new_AdmissionRequest :: AdmissionRequest where
  "new_AdmissionRequest =
     \<lparr>Operation = [], Resource = \<lparr>Group = [], Version = [], GVR_Resource = []\<rparr>, Name = []\<rparr>"

text \<open>Lines 220 to 226: a nil map is skipped, a missing key reads as the empty string.\<close>

definition has_bypass :: "Namespace \<Rightarrow> bool" where
  "has_bypass namespace =
     (case Annotations namespace of
        None \<Rightarrow> False
      | Some annotations \<Rightarrow>
          (case annotations bypassAnnotationKey of None \<Rightarrow> [] | Some v \<Rightarrow> v) = ''true'')"

definition webhookHandler :: "globals \<Rightarrow> http_request \<Rightarrow> handled" where
  "webhookHandler g req =
     (if Method req \<noteq> MethodPost then
        \<lparr>written = HttpError 405 (''Incoming request method '' @ Method req @
            '' is not supported, only POST is supported''),
         calls = [], globals_after = g\<rparr>
      else if Path req \<noteq> ''/'' then
        \<lparr>written = HttpError 404 (Path req @ '' 404 Not Found''),
         calls = [], globals_after = g\<rparr>
      else
        case Body req of
          Inl err \<Rightarrow>
            \<lparr>written = writeResponse \<lparr>Request = Some new_AdmissionRequest, Response = None\<rparr> False
               (''Failed to decode the request body json into an AdmissionReview resource: '' @
                Error err),
             calls = [], globals_after = g\<rparr>
        | Inr admReview \<Rightarrow>
            (case Request admReview of
               None \<Rightarrow> \<lparr>written = Panic, calls = [], globals_after = g\<rparr>
             | Some request \<Rightarrow>
                 if admitAll g = True then
                   \<lparr>written = writeResponse admReview True [], calls = [], globals_after = g\<rparr>
                 else if Resource request \<noteq> namespaceResourceType then
                   \<lparr>written = writeResponse admReview False
                      (''Incoming resource is not a Namespace: '' @
                       fmt_v_GroupVersionResource (Resource request)),
                    calls = [], globals_after = g\<rparr>
                 else if Operation request \<noteq> Delete then
                   \<lparr>written = writeResponse admReview False
                      (''Incoming operation is '' @ Operation request @ '' on namespace '' @
                       Name request @ ''. Only DELETE is currently supported.''),
                    calls = [], globals_after = g\<rparr>
                 else
                   (case Namespaces_Get (clientset g) (Name request) of
                      Inl err \<Rightarrow>
                        if IsNotFound err then
                          \<lparr>written = writeResponse admReview True [],
                           calls = [Call_Namespaces_Get (Name request)], globals_after = g\<rparr>
                        else
                          \<lparr>written = writeResponse admReview False
                             (''Error occurred while retrieving the namespace '' @
                              Name request @ '': '' @ Error err),
                           calls = [Call_Namespaces_Get (Name request)], globals_after = g\<rparr>
                    | Inr namespace \<Rightarrow>
                        if has_bypass namespace then
                          \<lparr>written = writeResponse admReview True [],
                           calls = [Call_Namespaces_Get (Name request)], globals_after = g\<rparr>
                        else
                          (case validateNamespaceDeletion g (Name request) of
                             (Some err, made) \<Rightarrow>
                               \<lparr>written = writeResponse admReview False (Error err),
                                calls = Call_Namespaces_Get (Name request) # made,
                                globals_after = g\<rparr>
                           | (None, made) \<Rightarrow>
                               \<lparr>written = writeResponse admReview True [],
                                calls = Call_Namespaces_Get (Name request) # made,
                                globals_after = g\<rparr>))))"

subsection \<open>The census as the specification words it\<close>

text \<open>
  The specification describes the loop as a census: an ordered list of
  (kind label, count query) pairs is scanned in full, and the result holds the kinds with
  a positive count and the kinds whose query failed, both in the declared order. These
  definitions follow that description; the loop is compared with them below.
\<close>

record CensusResult =
  nonEmptyKinds :: "(string \<times> int) list"
  failedKinds :: "(string \<times> go_error) list"

type_synonym ResourceKindQuery = "string \<times> (string \<Rightarrow> go_error + int)"

fun spec_census :: "string \<Rightarrow> ResourceKindQuery list \<Rightarrow> CensusResult" where
  "spec_census namespace [] = \<lparr>nonEmptyKinds = [], failedKinds = []\<rparr>"
| "spec_census namespace ((kind, query) # rest) =
     (let r = spec_census namespace rest in
      case query namespace of
        Inr count \<Rightarrow>
          if count > 0 then r\<lparr>nonEmptyKinds := (kind, count) # nonEmptyKinds r\<rparr> else r
      | Inl err \<Rightarrow> r\<lparr>failedKinds := (kind, err) # failedKinds r\<rparr>)"

text \<open>The monitored kinds in their fixed order, each with the query the cluster answers.\<close>

definition monitored :: "globals \<Rightarrow> ResourceKindQuery list" where
  "monitored g =
     [(''pods'', \<lambda>ns. len_Items (Pods_List (clientset g) ns)),
      (''services'', \<lambda>ns. len_Items (Services_List (clientset g) ns)),
      (''replicasets'', \<lambda>ns. len_Items (ReplicaSets_List (clientset g) ns)),
      (''deployments'', \<lambda>ns. len_Items (Deployments_List (clientset g) ns)),
      (''statefulsets'', \<lambda>ns. len_Items (StatefulSets_List (clientset g) ns)),
      (''daemonsets'', \<lambda>ns. len_Items (DaemonSets_List (clientset g) ns)),
      (''ingresses'', \<lambda>ns. len_Items (Ingresses_List (clientset g) ns)),
      (''horizontalpodautoscalers'',
         \<lambda>ns. len_Items (HorizontalPodAutoscalers_List (clientset g) ns))]"

text \<open>The queries behind a list of counters, without the record of the calls.\<close>

definition queries_of :: "globals \<Rightarrow> counter_entry list \<Rightarrow> ResourceKindQuery list" where
  "queries_of g cs = map (\<lambda>(kind, counter). (kind, \<lambda>ns. fst (counter g ns))) cs"

text \<open>How the loop writes a census entry into its two lists.\<close>

definition shown_counts :: "(string \<times> int) list \<Rightarrow> string list" where
  "shown_counts ks = map (\<lambda>(kind, num). kind_count kind num) ks"

definition shown_errors :: "(string \<times> go_error) list \<Rightarrow> go_error list" where
  "shown_errors ks = map (\<lambda>(kind, err). listing_error kind err) ks"

text \<open>
  Reading the kind label back from an entry of \<open>nonEmptyList\<close> (the text before the
  opening parenthesis) and of \<open>errList\<close> (the text between \<open>error listing\<close> and the
  comma).
\<close>

definition kind_of_count :: "string \<Rightarrow> string" where
  "kind_of_count s = takeWhile (\<lambda>c. c \<noteq> CHR ''('') s"

definition kind_of_error :: "go_error \<Rightarrow> string" where
  "kind_of_error e = takeWhile (\<lambda>c. c \<noteq> CHR '','') (drop (length ''error listing '') (Error e))"

text \<open>Two clusters that answer alike every question about one namespace.\<close>

definition same_answers :: "clientset \<Rightarrow> clientset \<Rightarrow> string \<Rightarrow> bool" where
  "same_answers c c' n =
     (Namespaces_Get c n = Namespaces_Get c' n \<and>
      Pods_List c n = Pods_List c' n \<and>
      Services_List c n = Services_List c' n \<and>
      ReplicaSets_List c n = ReplicaSets_List c' n \<and>
      Deployments_List c n = Deployments_List c' n \<and>
      StatefulSets_List c n = StatefulSets_List c' n \<and>
      DaemonSets_List c n = DaemonSets_List c' n \<and>
      Ingresses_List c n = Ingresses_List c' n \<and>
      HorizontalPodAutoscalers_List c n = HorizontalPodAutoscalers_List c' n)"

subsection \<open>Requests that reach the decision\<close>

text \<open>
  A POST to \<open>/\<close> whose body decodes into a review that carries a request: the handler
  gets past routing, decoding and the log line of line 186.
\<close>

definition well_formed :: "http_request \<Rightarrow> AdmissionReview \<Rightarrow> AdmissionRequest \<Rightarrow> bool" where
  "well_formed req admReview request =
     (Method req = ''POST'' \<and> Path req = ''/'' \<and> Body req = Inr admReview \<and>
      Request admReview = Some request)"

text \<open>A review whose response says allowed exactly when it gives no reason.\<close>

definition explained :: "AdmissionReview \<Rightarrow> bool" where
  "explained rv =
     (case Response rv of
        None \<Rightarrow> False
      | Some resp \<Rightarrow> (Allowed resp \<longleftrightarrow> Reason (Result resp) = []))"

text \<open>
  A request whose body decodes into a review that carries no request (the JSON \<open>{}\<close>
  or \<open>null\<close>): \<open>Request\<close> stays nil.
\<close>

definition no_request :: "http_request \<Rightarrow> bool" where
  "no_request req =
     (case Body req of Inl err \<Rightarrow> False | Inr admReview \<Rightarrow> Request admReview = None)"

subsection \<open>A cluster to run the handler on\<close>

text \<open>
  Seven namespaces: \<open>ns1\<close> carries the bypass annotation and three pods, \<open>ns2\<close> is
  empty, \<open>ns3\<close> holds two pods and a service, \<open>ns4\<close> does not exist, \<open>ns5\<close> is empty
  but its ingresses cannot be listed (and its annotation says \<open>True\<close>, not \<open>true\<close>), the
  lookup of \<open>ns6\<close> times out, and \<open>ns7\<close> holds two pods and a deployment while its
  services and autoscalers cannot be listed.
\<close>

definition ex_not_found :: go_error where
  "ex_not_found = \<lparr>Error = ''namespaces not found'', IsNotFound = True\<rparr>"

definition ex_timeout :: go_error where
  "ex_timeout = \<lparr>Error = ''i/o timeout'', IsNotFound = False\<rparr>"

definition ex_forbidden :: go_error where
  "ex_forbidden = \<lparr>Error = ''forbidden'', IsNotFound = False\<rparr>"

definition ex_clientset :: clientset where
  "ex_clientset =
     \<lparr>Namespaces_Get = (\<lambda>n.
         if n = ''ns1'' then Inr \<lparr>Annotations = Some [bypassAnnotationKey \<mapsto> ''true'']\<rparr>
         else if n = ''ns2'' then Inr \<lparr>Annotations = None\<rparr>
         else if n = ''ns3'' then Inr \<lparr>Annotations = Some [''owner'' \<mapsto> ''team-a'']\<rparr>
         else if n = ''ns5'' then Inr \<lparr>Annotations = Some [bypassAnnotationKey \<mapsto> ''True'']\<rparr>
         else if n = ''ns6'' then Inl ex_timeout
         else if n = ''ns7'' then Inr \<lparr>Annotations = Some Map.empty\<rparr>
         else Inl ex_not_found),
      Pods_List = (\<lambda>n.
         if n = ''ns1'' then Inr [''p1'', ''p2'', ''p3'']
         else if n = ''ns3'' then Inr [''web-0'', ''web-1'']
         else if n = ''ns7'' then Inr [''db-0'', ''db-1'']
         else Inr []),
      Services_List = (\<lambda>n.
         if n = ''ns3'' then Inr [''web'']
         else if n = ''ns7'' then Inl ex_timeout
         else Inr []),
      ReplicaSets_List = (\<lambda>n. Inr []),
      Deployments_List = (\<lambda>n. if n = ''ns7'' then Inr [''db''] else Inr []),
      StatefulSets_List = (\<lambda>n. Inr []),
      DaemonSets_List = (\<lambda>n. Inr []),
      Ingresses_List = (\<lambda>n. if n = ''ns5'' then Inl ex_timeout else Inr []),
      HorizontalPodAutoscalers_List = (\<lambda>n. if n = ''ns7'' then Inl ex_forbidden else Inr [])\<rparr>"

definition ex_globals :: globals where
  "ex_globals = \<lparr>admitAll = False, clientset = ex_clientset\<rparr>"

text \<open>The same cluster behind a handler started with \<open>--admitAll\<close>.\<close>

definition ex_admit_all :: globals where
  "ex_admit_all = \<lparr>admitAll = True, clientset = ex_clientset\<rparr>"

text \<open>A cluster that differs from the first one in the pods of \<open>ns2\<close> only.\<close>

definition ex_other :: globals where
  "ex_other =
     \<lparr>admitAll = False,
      clientset = ex_clientset\<lparr>Pods_List := (Pods_List ex_clientset)(''ns2'' := Inr [''late''])\<rparr>\<rparr>"

definition ex_request :: "string \<Rightarrow> string \<Rightarrow> string \<Rightarrow> AdmissionRequest" where
  "ex_request operation resource name =
     \<lparr>Operation = operation,
      Resource = \<lparr>Group = [], Version = ''v1'', GVR_Resource = resource\<rparr>,
      Name = name\<rparr>"

definition ex_review :: "string \<Rightarrow> string \<Rightarrow> string \<Rightarrow> AdmissionReview" where
  "ex_review operation resource name =
     \<lparr>Request = Some (ex_request operation resource name), Response = None\<rparr>"

definition ex_post :: "AdmissionReview \<Rightarrow> http_request" where
  "ex_post review = \<lparr>Method = ''POST'', Path = ''/'', Body = Inr review\<rparr>"

text \<open>The review and the request of a DELETE on a namespace.\<close>

definition ex_delete :: "string \<Rightarrow> http_request" where
  "ex_delete name = ex_post (ex_review ''DELETE'' ''namespaces'' name)"

text \<open>A POST whose body is cut short, so that decoding fails.\<close>

definition ex_garbled :: http_request where
  "ex_garbled =
     \<lparr>Method = ''POST'', Path = ''/'',
      Body = Inl \<lparr>Error = ''unexpected EOF'', IsNotFound = False\<rparr>\<rparr>"

text \<open>A POST whose body is \<open>{}\<close>: it decodes, and the review has no request.\<close>

definition ex_no_request :: http_request where
  "ex_no_request = ex_post \<lparr>Request = None, Response = None\<rparr>"

section \<open>Properties\<close>

subsection \<open>The loop against the census\<close>

text \<open>
  The loop, started from any accumulator, appends to \<open>errList\<close> and \<open>nonEmptyList\<close>
  what the census of the specification records, entry by entry, and makes the call of
  every counter in turn.
\<close>

lemma count_loop_acc:
  "count_loop g ns cs (E, N, C) =
     (E @ shown_errors (failedKinds (spec_census ns (queries_of g cs))),
      N @ shown_counts (nonEmptyKinds (spec_census ns (queries_of g cs))),
      C @ concat (map (\<lambda>(kind, counter). snd (counter g ns)) cs))"
proof (induction cs arbitrary: E N C)
  case Nil
  show ?case by (simp add: queries_of_def shown_errors_def shown_counts_def)
next
  case (Cons c cs)
  obtain kind counter where c: "c = (kind, counter)" by (cases c)
  obtain res made where r: "counter g ns = (res, made)" by (cases "counter g ns")
  show ?case
  proof (cases res)
    case (Inl err)
    with c r Cons show ?thesis
      by (simp add: queries_of_def shown_errors_def shown_counts_def Let_def)
  next
    case (Inr num)
    with c r Cons show ?thesis
      by (simp add: queries_of_def shown_errors_def shown_counts_def Let_def)
  qed
qed

lemma queries_of_counters: "queries_of g counters = monitored g"
  by (simp add: queries_of_def counters_def monitored_def podCounter_def serviceCounter_def
      replicasetCounter_def deploymentCounter_def statefulsetCounter_def daemonsetCounter_def
      ingressCounter_def autoScaleCounter_def)

lemma calls_of_counters:
  "concat (map (\<lambda>(kind, counter). snd (counter g ns)) counters) =
     [Call_Pods_List ns, Call_Services_List ns, Call_ReplicaSets_List ns,
      Call_Deployments_List ns, Call_StatefulSets_List ns, Call_DaemonSets_List ns,
      Call_Ingresses_List ns, Call_HorizontalPodAutoscalers_List ns]"
  by (simp add: counters_def podCounter_def serviceCounter_def
      replicasetCounter_def deploymentCounter_def statefulsetCounter_def daemonsetCounter_def
      ingressCounter_def autoScaleCounter_def)

lemma count_loop_counters:
  "count_loop g ns counters ([], [], []) =
     (shown_errors (failedKinds (spec_census ns (monitored g))),
      shown_counts (nonEmptyKinds (spec_census ns (monitored g))),
      [Call_Pods_List ns, Call_Services_List ns, Call_ReplicaSets_List ns,
       Call_Deployments_List ns, Call_StatefulSets_List ns, Call_DaemonSets_List ns,
       Call_Ingresses_List ns, Call_HorizontalPodAutoscalers_List ns])"
  by (simp add: count_loop_acc queries_of_counters calls_of_counters)

lemma monitored_kinds:
  "map fst (monitored g) =
     [''pods'', ''services'', ''replicasets'', ''deployments'', ''statefulsets'', ''daemonsets'',
      ''ingresses'', ''horizontalpodautoscalers'']"
  by (simp add: monitored_def)

lemma counters_kinds: "map fst counters = map fst (monitored g)"
  by (simp add: counters_def monitored_def)

lemma validateNamespaceDeletion_census:
  "validateNamespaceDeletion g ns =
     (deletion_error ns (shown_errors (failedKinds (spec_census ns (monitored g))))
        (shown_counts (nonEmptyKinds (spec_census ns (monitored g)))),
      [Call_Pods_List ns, Call_Services_List ns, Call_ReplicaSets_List ns,
       Call_Deployments_List ns, Call_StatefulSets_List ns, Call_DaemonSets_List ns,
       Call_Ingresses_List ns, Call_HorizontalPodAutoscalers_List ns])"
  by (simp add: validateNamespaceDeletion_def count_loop_counters)

subsection \<open>The error string\<close>

lemma deletion_error_cases:
  "deletion_error ns errList nonEmptyList =
     (if nonEmptyList = [] \<and> errList = [] then None
      else Some \<lparr>Error =
             (if nonEmptyList = [] then [] else nonEmpty_sentence ns nonEmptyList) @
             (if errList = [] then [] else errors_sentence ns errList) @
             bypass_warning ns,
           IsNotFound = False\<rparr>)"
  by (simp add: deletion_error_def Let_def nonEmpty_sentence_def errors_sentence_def)

lemma bypass_warning_nonempty: "bypass_warning ns \<noteq> []"
  by (simp add: bypass_warning_def)

lemma deletion_error_nonempty:
  "deletion_error ns errList nonEmptyList = Some err \<Longrightarrow> Error err \<noteq> []"
  by (auto simp: deletion_error_cases bypass_warning_nonempty split: if_splits)

lemma validateNamespaceDeletion_nonempty:
  "validateNamespaceDeletion g ns = (Some err, made) \<Longrightarrow> Error err \<noteq> []"
  by (auto simp: validateNamespaceDeletion_def split: prod.splits dest: deletion_error_nonempty)

subsection \<open>The handler on a decoded request\<close>

lemma webhookHandler_decoded:
  assumes "well_formed req admReview request"
  shows "webhookHandler g req =
     (if admitAll g = True then
        \<lparr>written = writeResponse admReview True [], calls = [], globals_after = g\<rparr>
      else if Resource request \<noteq> namespaceResourceType then
        \<lparr>written = writeResponse admReview False
           (''Incoming resource is not a Namespace: '' @
            fmt_v_GroupVersionResource (Resource request)),
         calls = [], globals_after = g\<rparr>
      else if Operation request \<noteq> Delete then
        \<lparr>written = writeResponse admReview False
           (''Incoming operation is '' @ Operation request @ '' on namespace '' @
            Name request @ ''. Only DELETE is currently supported.''),
         calls = [], globals_after = g\<rparr>
      else
        (case Namespaces_Get (clientset g) (Name request) of
           Inl err \<Rightarrow>
             if IsNotFound err then
               \<lparr>written = writeResponse admReview True [],
                calls = [Call_Namespaces_Get (Name request)], globals_after = g\<rparr>
             else
               \<lparr>written = writeResponse admReview False
                  (''Error occurred while retrieving the namespace '' @
                   Name request @ '': '' @ Error err),
                calls = [Call_Namespaces_Get (Name request)], globals_after = g\<rparr>
         | Inr namespace \<Rightarrow>
             if has_bypass namespace then
               \<lparr>written = writeResponse admReview True [],
                calls = [Call_Namespaces_Get (Name request)], globals_after = g\<rparr>
             else
               (case validateNamespaceDeletion g (Name request) of
                  (Some err, made) \<Rightarrow>
                    \<lparr>written = writeResponse admReview False (Error err),
                     calls = Call_Namespaces_Get (Name request) # made,
                     globals_after = g\<rparr>
                | (None, made) \<Rightarrow>
                    \<lparr>written = writeResponse admReview True [],
                     calls = Call_Namespaces_Get (Name request) # made,
                     globals_after = g\<rparr>)))"
  using assms by (simp add: webhookHandler_def well_formed_def MethodPost_def)

lemma writeResponse_decoded:
  "Request admReview = Some request \<Longrightarrow>
   writeResponse admReview allowed errorMsg =
     Review (admReview\<lparr>Response := Some \<lparr>Allowed = allowed, Result = \<lparr>Reason = errorMsg\<rparr>\<rparr>\<rparr>)"
  by (simp add: writeResponse_def)

lemma writeResponse_allow: "writeResponse rv True [] = Review rv' \<Longrightarrow> explained rv'"
  by (auto simp: writeResponse_def explained_def split: option.splits)

lemma writeResponse_deny:
  "msg \<noteq> [] \<Longrightarrow> writeResponse rv False msg = Review rv' \<Longrightarrow> explained rv'"
  by (auto simp: writeResponse_def explained_def split: option.splits)

subsection \<open>The example cluster\<close>

lemma ex_well_formed:
  "well_formed (ex_post (ex_review operation resource name))
     (ex_review operation resource name) (ex_request operation resource name)"
  by (simp add: well_formed_def ex_post_def ex_review_def)

lemma fmt_d_digits: "fmt_d 1 = ''1''" "fmt_d 2 = ''2''"
  by (simp_all add: fmt_d_def fmt_nat.simps)


lemma ex_census_ns3:
  "spec_census ''ns3'' (monitored ex_globals) =
     \<lparr>nonEmptyKinds = [(''pods'', 2), (''services'', 1)], failedKinds = []\<rparr>"
  by (simp add: monitored_def ex_globals_def ex_clientset_def len_Items_def)

lemma ex_census_ns5:
  "spec_census ''ns5'' (monitored ex_globals) =
     \<lparr>nonEmptyKinds = [], failedKinds = [(''ingresses'', ex_timeout)]\<rparr>"
  by (simp add: monitored_def ex_globals_def ex_clientset_def len_Items_def)

lemma ex_census_ns7:
  "spec_census ''ns7'' (monitored ex_globals) =
     \<lparr>nonEmptyKinds = [(''pods'', 2), (''deployments'', 1)],
      failedKinds = [(''services'', ex_timeout), (''horizontalpodautoscalers'', ex_forbidden)]\<rparr>"
  by (simp add: monitored_def ex_globals_def ex_clientset_def len_Items_def)

lemma ex_request_simps:
  "Operation (ex_request operation resource name) = operation"
  "Resource (ex_request operation resource name) =
     \<lparr>Group = [], Version = ''v1'', GVR_Resource = resource\<rparr>"
  "Name (ex_request operation resource name) = name"
  by (simp_all add: ex_request_def)

lemma ex_delete_well_formed:
  "well_formed (ex_delete name) (ex_review ''DELETE'' ''namespaces'' name)
     (ex_request ''DELETE'' ''namespaces'' name)"
  by (simp add: ex_delete_def ex_well_formed)

lemma ex_enforcing: "\<not> admitAll ex_globals"
  by (simp add: ex_globals_def)

subsection \<open>Before the decision: undecodable bodies and reviews without a request\<close>

text \<open>
  A body that does not decode is denied with the decoder's message, whatever the flag
  says, and a review that decodes without a request makes the handler panic at the log
  line of line 186. Neither is a request the decision below is taken on.
\<close>

lemma undecodable_body_denied:
  assumes "Method req = ''POST''" and "Path req = ''/''" and "Body req = Inl err"
  shows "webhookHandler g req =
     \<lparr>written = Review \<lparr>Request = Some new_AdmissionRequest,
        Response = Some \<lparr>Allowed = False, Result = \<lparr>Reason =
          ''Failed to decode the request body json into an AdmissionReview resource: '' @
          Error err\<rparr>\<rparr>\<rparr>,
      calls = [], globals_after = g\<rparr>"
  using assms by (simp add: webhookHandler_def MethodPost_def writeResponse_def)

lemma missing_request_panics:
  assumes "Method req = ''POST''" and "Path req = ''/''" and "Body req = Inr admReview"
    and "Request admReview = None"
  shows "webhookHandler g req = \<lparr>written = Panic, calls = [], globals_after = g\<rparr>"
  using assms by (simp add: webhookHandler_def MethodPost_def)

subsection \<open>The admit-all override\<close>

text \<open>
  C7. With the admit-all flag on, every decoded request is allowed with an empty reason,
  whatever its resource type, operation and name, and no call reaches the cluster: no
  gate is consulted, no namespace is looked up, no counter runs.
\<close>

theorem admit_all_override:
  assumes "well_formed req admReview request"
    and "admitAll g"
  shows "written (webhookHandler g req) =
           Review (admReview\<lparr>Response := Some \<lparr>Allowed = True, Result = \<lparr>Reason = []\<rparr>\<rparr>\<rparr>) \<and>
         calls (webhookHandler g req) = []"
proof -
  from assms(1) have rq: "Request admReview = Some request"
    by (simp add: well_formed_def)
  from assms(2) show ?thesis
    by (simp add: webhookHandler_decoded [OF assms(1)] writeResponse_decoded [OF rq])
qed

theorem admit_all_override_witness:
  "well_formed (ex_post (ex_review ''CREATE'' ''pods'' ''ns3''))
     (ex_review ''CREATE'' ''pods'' ''ns3'') (ex_request ''CREATE'' ''pods'' ''ns3'') \<and>
   admitAll ex_admit_all \<and>
   written (webhookHandler ex_admit_all (ex_post (ex_review ''CREATE'' ''pods'' ''ns3''))) =
     Review \<lparr>Request = Some (ex_request ''CREATE'' ''pods'' ''ns3''),
       Response = Some \<lparr>Allowed = True, Result = \<lparr>Reason = []\<rparr>\<rparr>\<rparr> \<and>
   calls (webhookHandler ex_admit_all (ex_post (ex_review ''CREATE'' ''pods'' ''ns3''))) = []"
proof -
  have on: "admitAll ex_admit_all"
    by (simp add: ex_admit_all_def)
  from admit_all_override [OF ex_well_formed on] ex_well_formed on show ?thesis
    by (simp add: ex_review_def)
qed

subsection \<open>The resource-type gate\<close>

text \<open>
  C3. With admit-all off, a decoded request whose resource is not exactly group \<open>""\<close>,
  version \<open>v1\<close>, resource \<open>namespaces\<close> is denied, the reason ends with the resource as
  \<open>%v\<close> prints it (group, version and resource between braces), and no call reaches
  the cluster: neither the namespace lookup nor any counter.
\<close>

theorem resource_type_gate:
  assumes "well_formed req admReview request"
    and "\<not> admitAll g"
    and "Resource request \<noteq> \<lparr>Group = [], Version = ''v1'', GVR_Resource = ''namespaces''\<rparr>"
  shows "written (webhookHandler g req) =
           Review (admReview\<lparr>Response := Some \<lparr>Allowed = False, Result = \<lparr>Reason =
             ''Incoming resource is not a Namespace: {'' @ Group (Resource request) @ '' '' @
             Version (Resource request) @ '' '' @ GVR_Resource (Resource request) @ ''}''\<rparr>\<rparr>\<rparr>) \<and>
         calls (webhookHandler g req) = []"
proof -
  from assms(1) have rq: "Request admReview = Some request"
    by (simp add: well_formed_def)
  from assms(2,3) show ?thesis
    by (simp add: webhookHandler_decoded [OF assms(1)] writeResponse_decoded [OF rq]
        namespaceResourceType_def fmt_v_GroupVersionResource_def)
qed

theorem resource_type_gate_witness:
  "well_formed (ex_post (ex_review ''DELETE'' ''pods'' ''ns3''))
     (ex_review ''DELETE'' ''pods'' ''ns3'') (ex_request ''DELETE'' ''pods'' ''ns3'') \<and>
   \<not> admitAll ex_globals \<and>
   Resource (ex_request ''DELETE'' ''pods'' ''ns3'') \<noteq>
     \<lparr>Group = [], Version = ''v1'', GVR_Resource = ''namespaces''\<rparr> \<and>
   written (webhookHandler ex_globals (ex_post (ex_review ''DELETE'' ''pods'' ''ns3''))) =
     Review \<lparr>Request = Some (ex_request ''DELETE'' ''pods'' ''ns3''),
       Response = Some \<lparr>Allowed = False, Result = \<lparr>Reason =
         ''Incoming resource is not a Namespace: { v1 pods}''\<rparr>\<rparr>\<rparr> \<and>
   calls (webhookHandler ex_globals (ex_post (ex_review ''DELETE'' ''pods'' ''ns3''))) = []"
proof -
  have other: "Resource (ex_request ''DELETE'' ''pods'' ''ns3'') \<noteq>
      \<lparr>Group = [], Version = ''v1'', GVR_Resource = ''namespaces''\<rparr>"
    by (simp add: ex_request_simps)
  from resource_type_gate [OF ex_well_formed ex_enforcing other] ex_well_formed ex_enforcing other
  show ?thesis
    by (simp add: ex_review_def ex_request_simps)
qed

subsection \<open>The operation gate\<close>

text \<open>
  C4. With admit-all off, a decoded request on the namespaces resource type whose
  operation is not DELETE is denied, and the reason spells out the operation and the name
  of the namespace. No call reaches the cluster.
\<close>

theorem operation_gate:
  assumes "well_formed req admReview request"
    and "\<not> admitAll g"
    and "Resource request = \<lparr>Group = [], Version = ''v1'', GVR_Resource = ''namespaces''\<rparr>"
    and "Operation request \<noteq> ''DELETE''"
  shows "written (webhookHandler g req) =
           Review (admReview\<lparr>Response := Some \<lparr>Allowed = False, Result = \<lparr>Reason =
             ''Incoming operation is '' @ Operation request @ '' on namespace '' @
             Name request @ ''. Only DELETE is currently supported.''\<rparr>\<rparr>\<rparr>) \<and>
         calls (webhookHandler g req) = []"
proof -
  from assms(1) have rq: "Request admReview = Some request"
    by (simp add: well_formed_def)
  from assms(2,3,4) show ?thesis
    by (simp add: webhookHandler_decoded [OF assms(1)] writeResponse_decoded [OF rq]
        namespaceResourceType_def Delete_def)
qed

theorem operation_gate_witness:
  "well_formed (ex_post (ex_review ''CREATE'' ''namespaces'' ''ns3''))
     (ex_review ''CREATE'' ''namespaces'' ''ns3'') (ex_request ''CREATE'' ''namespaces'' ''ns3'') \<and>
   \<not> admitAll ex_globals \<and>
   Resource (ex_request ''CREATE'' ''namespaces'' ''ns3'') =
     \<lparr>Group = [], Version = ''v1'', GVR_Resource = ''namespaces''\<rparr> \<and>
   Operation (ex_request ''CREATE'' ''namespaces'' ''ns3'') \<noteq> ''DELETE'' \<and>
   written (webhookHandler ex_globals (ex_post (ex_review ''CREATE'' ''namespaces'' ''ns3''))) =
     Review \<lparr>Request = Some (ex_request ''CREATE'' ''namespaces'' ''ns3''),
       Response = Some \<lparr>Allowed = False, Result = \<lparr>Reason =
         ''Incoming operation is CREATE on namespace ns3. Only DELETE is currently supported.''\<rparr>\<rparr>\<rparr> \<and>
   calls (webhookHandler ex_globals (ex_post (ex_review ''CREATE'' ''namespaces'' ''ns3''))) = []"
proof -
  have res: "Resource (ex_request ''CREATE'' ''namespaces'' ''ns3'') =
      \<lparr>Group = [], Version = ''v1'', GVR_Resource = ''namespaces''\<rparr>"
    by (simp add: ex_request_simps)
  have op: "Operation (ex_request ''CREATE'' ''namespaces'' ''ns3'') \<noteq> ''DELETE''"
    by (simp add: ex_request_simps)
  from operation_gate [OF ex_well_formed ex_enforcing res op] ex_well_formed ex_enforcing res op
  show ?thesis
    by (simp add: ex_review_def ex_request_simps)
qed

subsection \<open>The namespace lookup\<close>

text \<open>
  C5. With admit-all off, for a decoded DELETE on the namespaces resource type whose
  namespace lookup fails: a not-found error gives allow with an empty reason, any other
  error gives deny with a reason that ends with the text of the lookup error. In both
  cases the lookup is the only call made: no counter runs.
\<close>

theorem lookup_failure:
  assumes "well_formed req admReview request"
    and "\<not> admitAll g"
    and "Resource request = \<lparr>Group = [], Version = ''v1'', GVR_Resource = ''namespaces''\<rparr>"
    and "Operation request = ''DELETE''"
    and "Namespaces_Get (clientset g) (Name request) = Inl err"
  shows "written (webhookHandler g req) =
           (if IsNotFound err
            then Review (admReview\<lparr>Response := Some \<lparr>Allowed = True, Result = \<lparr>Reason = []\<rparr>\<rparr>\<rparr>)
            else Review (admReview\<lparr>Response := Some \<lparr>Allowed = False, Result = \<lparr>Reason =
              ''Error occurred while retrieving the namespace '' @ Name request @ '': '' @
              Error err\<rparr>\<rparr>\<rparr>)) \<and>
         calls (webhookHandler g req) = [Call_Namespaces_Get (Name request)]"
proof -
  from assms(1) have rq: "Request admReview = Some request"
    by (simp add: well_formed_def)
  from assms(2-) show ?thesis
    by (simp add: webhookHandler_decoded [OF assms(1)] writeResponse_decoded [OF rq]
        namespaceResourceType_def Delete_def)
qed

theorem lookup_failure_witness:
  "(well_formed (ex_delete ''ns4'') (ex_review ''DELETE'' ''namespaces'' ''ns4'')
      (ex_request ''DELETE'' ''namespaces'' ''ns4'') \<and>
    \<not> admitAll ex_globals \<and>
    Namespaces_Get (clientset ex_globals) ''ns4'' = Inl ex_not_found \<and>
    IsNotFound ex_not_found \<and>
    written (webhookHandler ex_globals (ex_delete ''ns4'')) =
      Review \<lparr>Request = Some (ex_request ''DELETE'' ''namespaces'' ''ns4''),
        Response = Some \<lparr>Allowed = True, Result = \<lparr>Reason = []\<rparr>\<rparr>\<rparr> \<and>
    calls (webhookHandler ex_globals (ex_delete ''ns4'')) = [Call_Namespaces_Get ''ns4'']) \<and>
   (well_formed (ex_delete ''ns6'') (ex_review ''DELETE'' ''namespaces'' ''ns6'')
      (ex_request ''DELETE'' ''namespaces'' ''ns6'') \<and>
    Namespaces_Get (clientset ex_globals) ''ns6'' = Inl ex_timeout \<and>
    \<not> IsNotFound ex_timeout \<and>
    written (webhookHandler ex_globals (ex_delete ''ns6'')) =
      Review \<lparr>Request = Some (ex_request ''DELETE'' ''namespaces'' ''ns6''),
        Response = Some \<lparr>Allowed = False, Result = \<lparr>Reason =
          ''Error occurred while retrieving the namespace ns6: i/o timeout''\<rparr>\<rparr>\<rparr> \<and>
    calls (webhookHandler ex_globals (ex_delete ''ns6'')) = [Call_Namespaces_Get ''ns6''])"
proof -
  have res: "Resource (ex_request ''DELETE'' ''namespaces'' n) =
      \<lparr>Group = [], Version = ''v1'', GVR_Resource = ''namespaces''\<rparr>" for n
    by (simp add: ex_request_simps)
  have op: "Operation (ex_request ''DELETE'' ''namespaces'' n) = ''DELETE''" for n
    by (simp add: ex_request_simps)
  have get4: "Namespaces_Get (clientset ex_globals) (Name (ex_request ''DELETE'' ''namespaces'' ''ns4'')) =
      Inl ex_not_found"
    by (simp add: ex_request_simps ex_globals_def ex_clientset_def)
  have get6: "Namespaces_Get (clientset ex_globals) (Name (ex_request ''DELETE'' ''namespaces'' ''ns6'')) =
      Inl ex_timeout"
    by (simp add: ex_request_simps ex_globals_def ex_clientset_def)
  have kinds: "IsNotFound ex_not_found" "\<not> IsNotFound ex_timeout"
    by (simp_all add: ex_not_found_def ex_timeout_def)
  from lookup_failure [OF ex_delete_well_formed ex_enforcing res op get4]
    lookup_failure [OF ex_delete_well_formed ex_enforcing res op get6]
    ex_delete_well_formed ex_enforcing get4 get6 kinds
  show ?thesis
    by (simp add: ex_review_def ex_request_simps ex_timeout_def)
qed

subsection \<open>The bypass annotation\<close>

text \<open>
  C2. With admit-all off, for a decoded DELETE on the namespaces resource type whose
  namespace is found and whose annotations map the key
  \<open>k8s-namespace-guard.admission.yahoo.com/allow-cascade-delete\<close> to the string \<open>true\<close>,
  the verdict is allow with an empty reason, and the lookup is the only call made: the
  census does not run, no kind is counted.
\<close>

theorem bypass_annotation:
  assumes "well_formed req admReview request"
    and "\<not> admitAll g"
    and "Resource request = \<lparr>Group = [], Version = ''v1'', GVR_Resource = ''namespaces''\<rparr>"
    and "Operation request = ''DELETE''"
    and "Namespaces_Get (clientset g) (Name request) = Inr namespace"
    and "Annotations namespace = Some annotations"
    and "annotations ''k8s-namespace-guard.admission.yahoo.com/allow-cascade-delete'' = Some ''true''"
  shows "written (webhookHandler g req) =
           Review (admReview\<lparr>Response := Some \<lparr>Allowed = True, Result = \<lparr>Reason = []\<rparr>\<rparr>\<rparr>) \<and>
         calls (webhookHandler g req) = [Call_Namespaces_Get (Name request)]"
proof -
  from assms(1) have rq: "Request admReview = Some request"
    by (simp add: well_formed_def)
  from assms(6,7) have "has_bypass namespace"
    by (simp add: has_bypass_def bypassAnnotationKey_def)
  with assms(2-5) show ?thesis
    by (simp add: webhookHandler_decoded [OF assms(1)] writeResponse_decoded [OF rq]
        namespaceResourceType_def Delete_def)
qed

theorem bypass_annotation_witness:
  "well_formed (ex_delete ''ns1'') (ex_review ''DELETE'' ''namespaces'' ''ns1'')
     (ex_request ''DELETE'' ''namespaces'' ''ns1'') \<and>
   \<not> admitAll ex_globals \<and>
   Namespaces_Get (clientset ex_globals) ''ns1'' =
     Inr \<lparr>Annotations = Some [bypassAnnotationKey \<mapsto> ''true'']\<rparr> \<and>
   [bypassAnnotationKey \<mapsto> ''true'']
     ''k8s-namespace-guard.admission.yahoo.com/allow-cascade-delete'' = Some ''true'' \<and>
   Pods_List (clientset ex_globals) ''ns1'' = Inr [''p1'', ''p2'', ''p3''] \<and>
   written (webhookHandler ex_globals (ex_delete ''ns1'')) =
     Review \<lparr>Request = Some (ex_request ''DELETE'' ''namespaces'' ''ns1''),
       Response = Some \<lparr>Allowed = True, Result = \<lparr>Reason = []\<rparr>\<rparr>\<rparr> \<and>
   calls (webhookHandler ex_globals (ex_delete ''ns1'')) = [Call_Namespaces_Get ''ns1'']"
proof -
  have res: "Resource (ex_request ''DELETE'' ''namespaces'' ''ns1'') =
      \<lparr>Group = [], Version = ''v1'', GVR_Resource = ''namespaces''\<rparr>"
    by (simp add: ex_request_simps)
  have op: "Operation (ex_request ''DELETE'' ''namespaces'' ''ns1'') = ''DELETE''"
    by (simp add: ex_request_simps)
  have get: "Namespaces_Get (clientset ex_globals) (Name (ex_request ''DELETE'' ''namespaces'' ''ns1'')) =
      Inr \<lparr>Annotations = Some [bypassAnnotationKey \<mapsto> ''true'']\<rparr>"
    by (simp add: ex_request_simps ex_globals_def ex_clientset_def)
  have ann: "Annotations \<lparr>Annotations = Some [bypassAnnotationKey \<mapsto> ''true'']\<rparr> =
      Some [bypassAnnotationKey \<mapsto> ''true'']"
    by simp
  have marked: "[bypassAnnotationKey \<mapsto> ''true'']
      ''k8s-namespace-guard.admission.yahoo.com/allow-cascade-delete'' = Some ''true''"
    by (simp add: bypassAnnotationKey_def)
  have pods: "Pods_List (clientset ex_globals) ''ns1'' = Inr [''p1'', ''p2'', ''p3'']"
    by (simp add: ex_globals_def ex_clientset_def)
  from bypass_annotation [OF ex_delete_well_formed ex_enforcing res op get ann marked]
    ex_delete_well_formed ex_enforcing get marked pods
  show ?thesis
    by (simp add: ex_review_def ex_request_simps)
qed

subsection \<open>The census\<close>

text \<open>
  C6. Started on the declared counters, the loop makes the eight list calls, one per
  monitored kind, in the order pods, services, replicasets, deployments, statefulsets,
  daemonsets, ingresses, horizontalpodautoscalers, whatever the earlier calls returned.
  Its two lists are those of the census of the specification, entry by entry and in the
  declared order: a kind with a positive count is in \<open>nonEmptyList\<close> as the kind
  followed by the count in parentheses, a kind whose call failed is in \<open>errList\<close> as
  \<open>error listing\<close>, the kind, a comma and the error of the call, and a kind with count
  zero is in neither. The loop is a total function: it returns the two lists for every
  cluster, and has no failure of its own.
\<close>

theorem census_full_scan:
  "count_loop g ns counters ([], [], []) =
     (map (\<lambda>(kind, err).
             \<lparr>Error = ''error listing '' @ kind @ '', '' @ Error err, IsNotFound = False\<rparr>)
        (failedKinds (spec_census ns (monitored g))),
      map (\<lambda>(kind, num). kind @ ''('' @ fmt_d num @ '')'')
        (nonEmptyKinds (spec_census ns (monitored g))),
      [Call_Pods_List ns, Call_Services_List ns, Call_ReplicaSets_List ns,
       Call_Deployments_List ns, Call_StatefulSets_List ns, Call_DaemonSets_List ns,
       Call_Ingresses_List ns, Call_HorizontalPodAutoscalers_List ns]) \<and>
   map fst counters =
     [''pods'', ''services'', ''replicasets'', ''deployments'', ''statefulsets'', ''daemonsets'',
      ''ingresses'', ''horizontalpodautoscalers''] \<and>
   map fst (monitored g) = map fst counters"
proof -
  have entries:
    "shown_errors ks = map (\<lambda>(kind, err).
        \<lparr>Error = ''error listing '' @ kind @ '', '' @ Error err, IsNotFound = False\<rparr>) ks"
    "shown_counts cs = map (\<lambda>(kind, num). kind @ ''('' @ fmt_d num @ '')'') cs" for ks cs
    by (simp_all add: shown_errors_def shown_counts_def listing_error_def kind_count_def)
  show ?thesis
    by (simp add: count_loop_counters entries counters_kinds [of g] monitored_kinds)
qed

text \<open>
  On \<open>ns7\<close> the services cannot be listed and pods were found before them: the six
  calls that follow are made all the same, and the deployment and the autoscaler error
  found later are entered after the earlier entries.
\<close>

theorem census_full_scan_witness:
  "Services_List (clientset ex_globals) ''ns7'' = Inl ex_timeout \<and>
   spec_census ''ns7'' (monitored ex_globals) =
     \<lparr>nonEmptyKinds = [(''pods'', 2), (''deployments'', 1)],
      failedKinds = [(''services'', ex_timeout), (''horizontalpodautoscalers'', ex_forbidden)]\<rparr> \<and>
   count_loop ex_globals ''ns7'' counters ([], [], []) =
     ([\<lparr>Error = ''error listing services, i/o timeout'', IsNotFound = False\<rparr>,
       \<lparr>Error = ''error listing horizontalpodautoscalers, forbidden'', IsNotFound = False\<rparr>],
      [''pods(2)'', ''deployments(1)''],
      [Call_Pods_List ''ns7'', Call_Services_List ''ns7'', Call_ReplicaSets_List ''ns7'',
       Call_Deployments_List ''ns7'', Call_StatefulSets_List ''ns7'', Call_DaemonSets_List ''ns7'',
       Call_Ingresses_List ''ns7'', Call_HorizontalPodAutoscalers_List ''ns7''])"
proof -
  have fails: "Services_List (clientset ex_globals) ''ns7'' = Inl ex_timeout"
    by (simp add: ex_globals_def ex_clientset_def)
  from census_full_scan [of ex_globals "''ns7''"] fails ex_census_ns7 show ?thesis
    by (simp add: fmt_d_digits ex_timeout_def ex_forbidden_def)
qed

text \<open>The same run, from the lemma on the loop, for use below.\<close>

lemma ns7_scan:
  "count_loop ex_globals ''ns7'' counters ([], [], []) =
     ([\<lparr>Error = ''error listing services, i/o timeout'', IsNotFound = False\<rparr>,
       \<lparr>Error = ''error listing horizontalpodautoscalers, forbidden'', IsNotFound = False\<rparr>],
      [''pods(2)'', ''deployments(1)''],
      [Call_Pods_List ''ns7'', Call_Services_List ''ns7'', Call_ReplicaSets_List ''ns7'',
       Call_Deployments_List ''ns7'', Call_StatefulSets_List ''ns7'', Call_DaemonSets_List ''ns7'',
       Call_Ingresses_List ''ns7'', Call_HorizontalPodAutoscalers_List ''ns7''])"
  by (simp add: count_loop_counters ex_census_ns7 shown_errors_def shown_counts_def
      listing_error_def kind_count_def fmt_d_digits ex_timeout_def ex_forbidden_def)

subsection \<open>Each kind at most once\<close>

lemma spec_census_kinds:
  "set (map fst (nonEmptyKinds (spec_census ns qs))) \<union>
   set (map fst (failedKinds (spec_census ns qs))) \<subseteq> set (map fst qs)"
proof (induction qs)
  case Nil
  show ?case by simp
next
  case (Cons q qs)
  obtain kind query where q: "q = (kind, query)" by (cases q)
  from Cons show ?case
    by (auto simp: q Let_def split: sum.splits)
qed

lemma spec_census_distinct:
  "distinct (map fst qs) \<Longrightarrow>
   distinct (map fst (nonEmptyKinds (spec_census ns qs)) @ map fst (failedKinds (spec_census ns qs)))"
proof (induction qs)
  case Nil
  show ?case by simp
next
  case (Cons q qs)
  obtain kind query where q: "q = (kind, query)" by (cases q)
  from Cons.prems have fresh: "kind \<notin> set (map fst qs)" and d: "distinct (map fst qs)"
    by (simp_all add: q)
  from fresh spec_census_kinds [of ns qs]
  have "kind \<notin> set (map fst (nonEmptyKinds (spec_census ns qs)))"
    "kind \<notin> set (map fst (failedKinds (spec_census ns qs)))"
    by blast+
  with Cons.IH [OF d] show ?case
    by (auto simp: q Let_def split: sum.splits)
qed

lemma kind_of_count_shown:
  "CHR ''('' \<notin> set kind \<Longrightarrow> kind_of_count (kind_count kind num) = kind"
  by (auto simp: kind_of_count_def kind_count_def takeWhile_tail)

lemma kind_of_error_shown:
  "CHR '','' \<notin> set kind \<Longrightarrow> kind_of_error (listing_error kind err) = kind"
  by (auto simp: kind_of_error_def listing_error_def takeWhile_tail)

lemma kinds_of_shown_counts:
  "\<forall>k \<in> set (map fst ks). CHR ''('' \<notin> set k \<Longrightarrow> map kind_of_count (shown_counts ks) = map fst ks"
  by (induction ks) (auto simp: shown_counts_def kind_of_count_shown)

lemma kinds_of_shown_errors:
  "\<forall>k \<in> set (map fst ks). CHR '','' \<notin> set k \<Longrightarrow> map kind_of_error (shown_errors ks) = map fst ks"
  by (induction ks) (auto simp: shown_errors_def kind_of_error_shown)

lemma monitored_distinct: "distinct (map fst (monitored g))"
  by (simp add: monitored_kinds)

lemma monitored_plain:
  "\<forall>k \<in> set (map fst (monitored g)). CHR ''('' \<notin> set k \<and> CHR '','' \<notin> set k"
  by (simp add: monitored_kinds)

text \<open>
  C10. In the two lists the loop returns, each monitored kind occurs at most once: the
  kinds read back from the entries of \<open>nonEmptyList\<close>, followed by those read back from
  the entries of \<open>errList\<close>, form a list without repetition, all of them declared kinds.
  So no kind is in both lists, and none is twice in one.
\<close>

theorem census_kinds_distinct:
  assumes "count_loop g ns counters ([], [], []) = (errList, nonEmptyList, made)"
  shows "distinct (map kind_of_count nonEmptyList @ map kind_of_error errList) \<and>
         set (map kind_of_count nonEmptyList @ map kind_of_error errList) \<subseteq> set (map fst counters)"
proof -
  let ?r = "spec_census ns (monitored g)"
  from assms have lists: "errList = shown_errors (failedKinds ?r)"
    "nonEmptyList = shown_counts (nonEmptyKinds ?r)"
    by (simp_all add: count_loop_counters)
  from spec_census_kinds [of ns "monitored g"] monitored_plain [of g]
  have plain: "\<forall>k \<in> set (map fst (nonEmptyKinds ?r)). CHR ''('' \<notin> set k"
    "\<forall>k \<in> set (map fst (failedKinds ?r)). CHR '','' \<notin> set k"
    by blast+
  have kinds: "map kind_of_count nonEmptyList = map fst (nonEmptyKinds ?r)"
    "map kind_of_error errList = map fst (failedKinds ?r)"
    by (simp_all add: lists kinds_of_shown_counts [OF plain(1)] kinds_of_shown_errors [OF plain(2)])
  from spec_census_distinct [OF monitored_distinct, of ns g] spec_census_kinds [of ns "monitored g"]
  show ?thesis
    unfolding kinds counters_kinds [of g] by simp
qed

theorem census_kinds_distinct_witness:
  "count_loop ex_globals ''ns7'' counters ([], [], []) =
     ([\<lparr>Error = ''error listing services, i/o timeout'', IsNotFound = False\<rparr>,
       \<lparr>Error = ''error listing horizontalpodautoscalers, forbidden'', IsNotFound = False\<rparr>],
      [''pods(2)'', ''deployments(1)''],
      [Call_Pods_List ''ns7'', Call_Services_List ''ns7'', Call_ReplicaSets_List ''ns7'',
       Call_Deployments_List ''ns7'', Call_StatefulSets_List ''ns7'', Call_DaemonSets_List ''ns7'',
       Call_Ingresses_List ''ns7'', Call_HorizontalPodAutoscalers_List ''ns7'']) \<and>
   map kind_of_count [''pods(2)'', ''deployments(1)''] @
   map kind_of_error
     [\<lparr>Error = ''error listing services, i/o timeout'', IsNotFound = False\<rparr>,
      \<lparr>Error = ''error listing horizontalpodautoscalers, forbidden'', IsNotFound = False\<rparr>] =
     [''pods'', ''deployments'', ''services'', ''horizontalpodautoscalers''] \<and>
   distinct [''pods'', ''deployments'', ''services'', ''horizontalpodautoscalers''] \<and>
   set [''pods'', ''deployments'', ''services'', ''horizontalpodautoscalers''] \<subseteq> set (map fst counters)"
proof -
  have read: "map kind_of_count [''pods(2)'', ''deployments(1)''] @
      map kind_of_error
        [\<lparr>Error = ''error listing services, i/o timeout'', IsNotFound = False\<rparr>,
         \<lparr>Error = ''error listing horizontalpodautoscalers, forbidden'', IsNotFound = False\<rparr>] =
      [''pods'', ''deployments'', ''services'', ''horizontalpodautoscalers'']"
    by (simp add: kind_of_count_def kind_of_error_def)
  from census_kinds_distinct [OF ns7_scan] ns7_scan read
  show ?thesis
    by simp
qed

subsection \<open>The verdict after the census\<close>



subsection \<open>Every denial is explained\<close>

text \<open>
  A review that the handler writes carries a response that is allowed with an empty
  reason or denied with a reason that is not empty; and on a decoded request the handler
  does write a review.
\<close>

lemma written_review_explained:
  assumes "written (webhookHandler g req) = Review rv"
  shows "\<exists>resp. Response rv = Some resp \<and>
           (if Allowed resp then Reason (Result resp) = [] else Reason (Result resp) \<noteq> [])"
proof -
  have "explained rv"
    using assms
    by (auto simp: webhookHandler_def split: if_splits sum.splits option.splits prod.splits
        dest: writeResponse_allow validateNamespaceDeletion_nonempty
        elim!: writeResponse_deny [rotated])
  then show ?thesis
    by (auto simp: explained_def split: option.splits)
qed

lemma writeResponse_writes:
  "Request admReview = Some request \<Longrightarrow> \<exists>rv. writeResponse admReview allowed msg = Review rv"
  by (simp add: writeResponse_def)

lemma decoded_writes_review:
  assumes "well_formed req admReview request"
  shows "\<exists>rv. written (webhookHandler g req) = Review rv"
proof -
  from assms have rq: "Request admReview = Some request"
    by (simp add: well_formed_def)
  show ?thesis
    by (simp add: webhookHandler_decoded [OF assms] writeResponse_decoded [OF rq]
        split: sum.splits option.splits prod.splits)
qed

text \<open>
  C8. Every request, malformed input included, is to get a verdict, allowed with an
  empty reason or denied with a reason that is not empty. The handler does so for every
  POST to \<open>/\<close> but one kind: when the body does not decode, and when it decodes into a
  review that carries a request, a review is written and its response is allowed with an
  empty reason or denied with a reason that is not empty. When the body decodes into a
  review without a request, the handler panics at line 186 and writes no verdict at
  all, where the decode-error path next to it (lines 179 to 185) supplies an empty
  request and denies with a reason. Requests with another method or path are answered by
  the routing with an HTTP error before any review is read.
\<close>

theorem verdict_or_panic:
  "if Method req = ''POST'' \<and> Path req = ''/''
   then if no_request req
        then webhookHandler g req = \<lparr>written = Panic, calls = [], globals_after = g\<rparr>
        else \<exists>rv resp. written (webhookHandler g req) = Review rv \<and> Response rv = Some resp \<and>
               (if Allowed resp then Reason (Result resp) = [] else Reason (Result resp) \<noteq> [])
   else \<exists>code msg. written (webhookHandler g req) = HttpError code msg"
proof (cases "Method req = ''POST'' \<and> Path req = ''/''")
  case False
  then show ?thesis
    by (auto simp: webhookHandler_def MethodPost_def)
next
  case route: True
  show ?thesis
  proof (cases "Body req")
    case (Inl err)
    from route Inl undecodable_body_denied [of req err g] show ?thesis
      by (simp add: no_request_def)
  next
    case (Inr admReview)
    show ?thesis
    proof (cases "Request admReview")
      case None
      from route Inr None missing_request_panics [of req admReview g] show ?thesis
        by (simp add: no_request_def)
    next
      case (Some request)
      from route Inr Some have wf: "well_formed req admReview request"
        by (simp add: well_formed_def)
      from decoded_writes_review [OF wf] obtain rv
        where rv: "written (webhookHandler g req) = Review rv" ..
      from written_review_explained [OF rv] rv route Inr Some show ?thesis
        by (simp add: no_request_def)
    qed
  qed
qed

theorem verdict_or_panic_witness:
  "(Method ex_no_request = ''POST'' \<and> Path ex_no_request = ''/'' \<and>
    Body ex_no_request = Inr \<lparr>Request = None, Response = None\<rparr> \<and>
    no_request ex_no_request \<and>
    webhookHandler ex_globals ex_no_request =
      \<lparr>written = Panic, calls = [], globals_after = ex_globals\<rparr>) \<and>
   (Method ex_garbled = ''POST'' \<and> Path ex_garbled = ''/'' \<and> \<not> no_request ex_garbled \<and>
    written (webhookHandler ex_globals ex_garbled) =
      Review \<lparr>Request = Some new_AdmissionRequest,
        Response = Some \<lparr>Allowed = False, Result = \<lparr>Reason =
          ''Failed to decode the request body json into an AdmissionReview resource: unexpected EOF''\<rparr>\<rparr>\<rparr>) \<and>
   (Method (ex_garbled\<lparr>Method := ''GET''\<rparr>) = ''GET'' \<and>
    written (webhookHandler ex_globals (ex_garbled\<lparr>Method := ''GET''\<rparr>)) =
      HttpError 405 ''Incoming request method GET is not supported, only POST is supported'')"
proof -
  have nil: "Method ex_no_request = ''POST''" "Path ex_no_request = ''/''"
    "Body ex_no_request = Inr \<lparr>Request = None, Response = None\<rparr>" "no_request ex_no_request"
    by (simp_all add: ex_no_request_def ex_post_def no_request_def)
  have cut: "Method ex_garbled = ''POST''" "Path ex_garbled = ''/''" "\<not> no_request ex_garbled"
    by (simp_all add: ex_garbled_def no_request_def)
  have denied: "written (webhookHandler ex_globals ex_garbled) =
      Review \<lparr>Request = Some new_AdmissionRequest,
        Response = Some \<lparr>Allowed = False, Result = \<lparr>Reason =
          ''Failed to decode the request body json into an AdmissionReview resource: unexpected EOF''\<rparr>\<rparr>\<rparr>"
    using undecodable_body_denied
      [of ex_garbled "\<lparr>Error = ''unexpected EOF'', IsNotFound = False\<rparr>" ex_globals]
    by (simp add: ex_garbled_def)
  have get: "written (webhookHandler ex_globals (ex_garbled\<lparr>Method := ''GET''\<rparr>)) =
      HttpError 405 ''Incoming request method GET is not supported, only POST is supported''"
    by (simp add: webhookHandler_def MethodPost_def)
  from verdict_or_panic [of ex_no_request ex_globals] nil cut denied get show ?thesis
    by simp
qed

subsection \<open>Determinism\<close>

lemma spec_census_same:
  assumes "same_answers (clientset g) (clientset g') ns"
  shows "spec_census ns (monitored g) = spec_census ns (monitored g')"
  using assms by (simp add: same_answers_def monitored_def)

lemma validateNamespaceDeletion_same:
  "same_answers (clientset g) (clientset g') ns \<Longrightarrow>
   validateNamespaceDeletion g ns = validateNamespaceDeletion g' ns"
  by (simp add: validateNamespaceDeletion_census spec_census_same)

text \<open>
  C9. The review written and the calls made are determined by the request, the flag and
  the answers of the cluster about the namespace the request names: two runs on the same
  request, with the same flag, against clusters that answer the lookup and the eight list
  calls for that namespace alike, write the same response (verdict and reason) and make
  the same calls. The handler leaves the package-level variables as it found them.
\<close>

theorem decision_deterministic:
  assumes "admitAll g = admitAll g'"
    and "\<And>admReview request. Body req = Inr admReview \<Longrightarrow> Request admReview = Some request \<Longrightarrow>
           same_answers (clientset g) (clientset g') (Name request)"
  shows "written (webhookHandler g req) = written (webhookHandler g' req) \<and>
         calls (webhookHandler g req) = calls (webhookHandler g' req) \<and>
         globals_after (webhookHandler g req) = g"
proof (cases "Method req = ''POST'' \<and> Path req = ''/''")
  case False
  then show ?thesis
    by (auto simp: webhookHandler_def MethodPost_def)
next
  case route: True
  show ?thesis
  proof (cases "Body req")
    case (Inl err)
    with route show ?thesis
      by (simp add: webhookHandler_def MethodPost_def)
  next
    case (Inr admReview)
    show ?thesis
    proof (cases "Request admReview")
      case None
      with route Inr show ?thesis
        by (simp add: webhookHandler_def MethodPost_def)
    next
      case (Some request)
      from route Inr Some have wf: "well_formed req admReview request"
        by (simp add: well_formed_def)
      from assms(2) [OF Inr Some]
      have same: "same_answers (clientset g) (clientset g') (Name request)" .
      then have get: "Namespaces_Get (clientset g) (Name request) =
          Namespaces_Get (clientset g') (Name request)"
        by (simp add: same_answers_def)
      show ?thesis
        by (simp add: webhookHandler_decoded [OF wf] assms(1) get
            validateNamespaceDeletion_same [OF same]
            split: sum.splits option.splits prod.splits)
    qed
  qed
qed

theorem decision_deterministic_witness:
  "admitAll ex_globals = admitAll ex_other \<and>
   same_answers (clientset ex_globals) (clientset ex_other) ''ns7'' \<and>
   Pods_List (clientset ex_globals) ''ns2'' \<noteq> Pods_List (clientset ex_other) ''ns2'' \<and>
   written (webhookHandler ex_globals (ex_delete ''ns7'')) =
     written (webhookHandler ex_other (ex_delete ''ns7'')) \<and>
   calls (webhookHandler ex_globals (ex_delete ''ns7'')) =
     calls (webhookHandler ex_other (ex_delete ''ns7'')) \<and>
   calls (webhookHandler ex_globals (ex_delete ''ns7'')) =
     [Call_Namespaces_Get ''ns7'', Call_Pods_List ''ns7'', Call_Services_List ''ns7'',
      Call_ReplicaSets_List ''ns7'', Call_Deployments_List ''ns7'', Call_StatefulSets_List ''ns7'',
      Call_DaemonSets_List ''ns7'', Call_Ingresses_List ''ns7'',
      Call_HorizontalPodAutoscalers_List ''ns7''] \<and>
   globals_after (webhookHandler ex_globals (ex_delete ''ns7'')) = ex_globals"
proof -
  have flag: "admitAll ex_globals = admitAll ex_other"
    by (simp add: ex_globals_def ex_other_def)
  have same: "same_answers (clientset ex_globals) (clientset ex_other) ''ns7''"
    by (simp add: same_answers_def ex_globals_def ex_other_def)
  have named: "same_answers (clientset ex_globals) (clientset ex_other) (Name request)"
    if "Body (ex_delete ''ns7'') = Inr admReview" and "Request admReview = Some request"
    for admReview request
    using that same by (auto simp: ex_delete_def ex_post_def ex_review_def ex_request_def)
  have differ: "Pods_List (clientset ex_globals) ''ns2'' \<noteq> Pods_List (clientset ex_other) ''ns2''"
    by (simp add: ex_globals_def ex_other_def ex_clientset_def)
  have get7: "Namespaces_Get (clientset ex_globals) ''ns7'' = Inr \<lparr>Annotations = Some Map.empty\<rparr>"
    by (simp add: ex_globals_def ex_clientset_def)
  have made: "calls (webhookHandler ex_globals (ex_delete ''ns7'')) =
      [Call_Namespaces_Get ''ns7'', Call_Pods_List ''ns7'', Call_Services_List ''ns7'',
       Call_ReplicaSets_List ''ns7'', Call_Deployments_List ''ns7'', Call_StatefulSets_List ''ns7'',
       Call_DaemonSets_List ''ns7'', Call_Ingresses_List ''ns7'',
       Call_HorizontalPodAutoscalers_List ''ns7'']"
    by (simp add: webhookHandler_decoded [OF ex_delete_well_formed] ex_enforcing
        namespaceResourceType_def Delete_def ex_request_simps get7 has_bypass_def
        validateNamespaceDeletion_census split: option.splits)
  from decision_deterministic [of ex_globals ex_other "ex_delete ''ns7''", OF flag named]
    flag same differ made
  show ?thesis
    by simp
qed

subsection \<open>The scenarios of the specification\<close>

text \<open>
  Scenario C: two pods and a service in \<open>ns3\<close>. Scenario E: \<open>ns5\<close> is empty but its
  ingresses cannot be listed; its annotation \<open>True\<close> is not the bypass value, so the
  census runs.
\<close>

lemma scenario_C:
  "written (webhookHandler ex_globals (ex_delete ''ns3'')) =
     Review \<lparr>Request = Some (ex_request ''DELETE'' ''namespaces'' ''ns3''),
       Response = Some \<lparr>Allowed = False, Result = \<lparr>Reason =
         ''The namespace ns3 you are trying to remove contains one or more of these resources: [pods(2) services(1)]. Please delete them and try again.'' @
         '' WARNING: If you know what you are doing, run `kubectl annotate namespace ns3 k8s-namespace-guard.admission.yahoo.com/allow-cascade-delete=true` to bypass this policy check.''\<rparr>\<rparr>\<rparr>"
proof -
  have get: "Namespaces_Get (clientset ex_globals) ''ns3'' =
      Inr \<lparr>Annotations = Some [''owner'' \<mapsto> ''team-a'']\<rparr>"
    by (simp add: ex_globals_def ex_clientset_def)
  have plain: "\<not> has_bypass \<lparr>Annotations = Some [''owner'' \<mapsto> ''team-a'']\<rparr>"
    by (simp add: has_bypass_def bypassAnnotationKey_def)
  show ?thesis
    by (simp add: webhookHandler_decoded [OF ex_delete_well_formed] ex_enforcing
        namespaceResourceType_def Delete_def ex_request_simps get plain
        validateNamespaceDeletion_census ex_census_ns3 deletion_error_cases
        writeResponse_def ex_review_def nonEmpty_sentence_def bypass_warning_def
        bypassAnnotationKey_def fmt_v_strings_def shown_counts_def shown_errors_def
        kind_count_def fmt_d_digits)
qed

lemma scenario_E:
  "webhookHandler ex_globals (ex_delete ''ns5'') =
     \<lparr>written = Review \<lparr>Request = Some (ex_request ''DELETE'' ''namespaces'' ''ns5''),
        Response = Some \<lparr>Allowed = False, Result = \<lparr>Reason =
          ''The following error(s) occurred while validating the DELETE operation on the namespace ns5: [error listing ingresses, i/o timeout].'' @
          '' WARNING: If you know what you are doing, run `kubectl annotate namespace ns5 k8s-namespace-guard.admission.yahoo.com/allow-cascade-delete=true` to bypass this policy check.''\<rparr>\<rparr>\<rparr>,
      calls =
        [Call_Namespaces_Get ''ns5'', Call_Pods_List ''ns5'', Call_Services_List ''ns5'',
         Call_ReplicaSets_List ''ns5'', Call_Deployments_List ''ns5'', Call_StatefulSets_List ''ns5'',
         Call_DaemonSets_List ''ns5'', Call_Ingresses_List ''ns5'',
         Call_HorizontalPodAutoscalers_List ''ns5''],
      globals_after = ex_globals\<rparr>"
proof -
  have get: "Namespaces_Get (clientset ex_globals) ''ns5'' =
      Inr \<lparr>Annotations = Some [bypassAnnotationKey \<mapsto> ''True'']\<rparr>"
    by (simp add: ex_globals_def ex_clientset_def)
  show ?thesis
    by (simp add: webhookHandler_decoded [OF ex_delete_well_formed] ex_enforcing
        namespaceResourceType_def Delete_def ex_request_simps get has_bypass_def
        validateNamespaceDeletion_census ex_census_ns5 deletion_error_cases
        writeResponse_def ex_review_def errors_sentence_def bypass_warning_def
        bypassAnnotationKey_def fmt_v_errors_def shown_counts_def shown_errors_def
        listing_error_def ex_timeout_def)
qed

end
